theory Spec2Isabelle
  imports Complex_Main "HOL-Library.Word"
begin

unbundle bit_operations_syntax

section \<open>Library functions the client relies on\<close>

subsection \<open>strconv\<close>

text \<open>
  \<^verbatim>\<open>strconv.ParseInt(s, 10, 64)\<close>, \<^verbatim>\<open>strconv.Itoa\<close> and \<^verbatim>\<open>strconv.FormatBool\<close> belong to the Go
  standard library. They are written out here for base 10 and bit size 64, following the
  library's algorithm: \<^verbatim>\<open>ParseUint\<close> accumulates the digits in a \<^verbatim>\<open>uint64\<close> and checks for
  overflow before each step, \<^verbatim>\<open>ParseInt\<close> strips one sign and checks the signed range.
  A \<^verbatim>\<open>uint64\<close> and an \<^verbatim>\<open>int64\<close> are both a \<^typ>\<open>64 word\<close>: \<^term>\<open>unat\<close> reads the first,
  \<^term>\<open>sint\<close> the second, and the conversion \<^verbatim>\<open>uint64(x)\<close> of an \<^verbatim>\<open>int64\<close> keeps the bits.
\<close>

datatype NumError = ErrSyntax | ErrRange

definition lower :: "nat \<Rightarrow> nat" where
  "lower c = c OR 32"

definition digit_of :: "char \<Rightarrow> nat option" where
  "digit_of ch =
     (let c = (of_char ch :: nat) in
      if 48 \<le> c \<and> c \<le> 57 then Some (c - 48)
      else if 97 \<le> lower c \<and> lower c \<le> 122 then Some (lower c - 97 + 10)
      else None)"

definition maxUint64 :: "64 word" where
  "maxUint64 = 18446744073709551615"

definition cutoff10 :: "64 word" where
  "cutoff10 = maxUint64 div 10 + 1"

fun ParseUint_loop :: "64 word \<Rightarrow> string \<Rightarrow> 64 word \<times> NumError option" where
  "ParseUint_loop n [] = (n, None)"
| "ParseUint_loop n (ch # s) =
     (case digit_of ch of
        None \<Rightarrow> (0, Some ErrSyntax)
      | Some d \<Rightarrow>
          if d \<ge> 10 then (0, Some ErrSyntax)
          else if n \<ge> cutoff10 then (maxUint64, Some ErrRange)
          else
            let n' = n * 10;
                n1 = n' + of_nat d
            in if n1 < n' \<or> n1 > maxUint64 then (maxUint64, Some ErrRange)
               else ParseUint_loop n1 s)"

definition ParseUint :: "string \<Rightarrow> 64 word \<times> NumError option" where
  "ParseUint s = (if s = [] then (0, Some ErrSyntax) else ParseUint_loop 0 s)"

definition ParseInt :: "string \<Rightarrow> 64 word \<times> NumError option" where
  "ParseInt s0 =
     (if s0 = [] then (0, Some ErrSyntax)
      else
        let neg = (hd s0 = CHR ''-'');
            s = (if hd s0 = CHR ''+'' \<or> hd s0 = CHR ''-'' then tl s0 else s0);
            (un, err) = ParseUint s
        in if err \<noteq> None \<and> err \<noteq> Some ErrRange then (0, err)
           else
             let cutoff = (push_bit 63 1 :: 64 word)
             in if \<not> neg \<and> un \<ge> cutoff then (cutoff - 1, Some ErrRange)
                else if neg \<and> un > cutoff then (- cutoff, Some ErrRange)
                else (if neg then - un else un, None))"

fun Itoa_nat :: "nat \<Rightarrow> string" where
  "Itoa_nat n =
     (if n < 10 then [char_of (48 + n)]
      else Itoa_nat (n div 10) @ [char_of (48 + n mod 10)])"

declare Itoa_nat.simps [simp del]

definition Itoa :: "int \<Rightarrow> string" where
  "Itoa i = (if i < 0 then CHR ''-'' # Itoa_nat (nat (- i)) else Itoa_nat (nat i))"

definition FormatBool :: "bool \<Rightarrow> string" where
  "FormatBool b = (if b then ''true'' else ''false'')"

text \<open>
  What a decimal string denotes, independently of the parser: a non-empty string of the
  digits 0 to 9, read in base ten.
\<close>

definition is_digit :: "char \<Rightarrow> bool" where
  "is_digit ch = (48 \<le> (of_char ch :: nat) \<and> (of_char ch :: nat) \<le> 57)"

definition decimal :: "string \<Rightarrow> bool" where
  "decimal s = (s \<noteq> [] \<and> list_all is_digit s)"

definition dec_val :: "nat \<Rightarrow> string \<Rightarrow> nat" where
  "dec_val = foldl (\<lambda>a ch. a * 10 + (of_char ch - 48))"

subsection \<open>time, heimdall's HTTP client\<close>

text \<open>
  A \<^verbatim>\<open>time.Duration\<close> counts nanoseconds. The heimdall client is configured by options
  applied in order to its defaults (a timeout of 30 seconds, no retry, no retrier).
\<close>

type_synonym Duration = int

definition Millisecond :: Duration where
  "Millisecond = 1000000"

datatype Backoff = NewConstantBackoff Duration Duration

datatype Retriable = NewNoRetrier | NewRetrier Backoff

record Client =
  timeout :: Duration
  retryCount :: int
  retrier :: Retriable

datatype Option = WithHTTPTimeout Duration | WithRetryCount int | WithRetrier Retriable

fun apply_Option :: "Client \<Rightarrow> Option \<Rightarrow> Client" where
  "apply_Option c (WithHTTPTimeout t) = c\<lparr>timeout := t\<rparr>"
| "apply_Option c (WithRetryCount n) = c\<lparr>retryCount := n\<rparr>"
| "apply_Option c (WithRetrier r) = c\<lparr>retrier := r\<rparr>"

definition NewClient :: "Option list \<Rightarrow> Client" where
  "NewClient opts =
     foldl apply_Option
       \<lparr>timeout = 30 * 1000 * Millisecond, retryCount = 0, retrier = NewNoRetrier\<rparr> opts"

section \<open>Data structures of the client\<close>

type_synonym RawMessage = string

datatype json =
  JNull | JBool bool | JNumber real | JString string
  | JArray "json list" | JObject "(string \<times> json) list"

record Response =
  Data :: RawMessage
  TimeTaken :: real
  ContextSlot :: "64 word"

record SwapInfo =
  AmmKey :: string
  FeeAmount :: string
  FeeMint :: string
  InAmount :: string
  InputMint :: string
  Label :: string
  OutAmount :: string
  OutputMint :: string

record Route =
  Percent :: int
  SwapInfo :: SwapInfo

record Price =
  ID :: string
  MintSymbol :: string
  VsToken :: string
  VsTokenSymbol :: string
  Price :: real

type_synonym PriceMap = "string \<rightharpoonup> Price"

record QuoteParams =
  InputMint :: string
  OutputMint :: string
  Amount :: "64 word"
  SwapMode :: string
  DynamicSlippage :: bool
  OnlyDirectRoutes :: bool
  AsLegacyTransaction :: bool
  MinimizeSlippage :: bool

record QuoteResponse =
  ContextSlot :: int
  InAmount :: string
  InputMint :: string
  OtherAmountThreshold :: string
  OutAmount :: string
  OutputMint :: string
  PlatformFee :: json
  PriceImpactPct :: string
  RoutePlan :: Route
  ScoreReport :: json
  SlippageBps :: int
  SwapMode :: string
  SwapType :: string
  TimeTaken :: real

record SwapParams =
  Route :: Route
  UserPublicKey :: string
  WrapUnwrapSol :: "bool option"
  FeeAccount :: string
  AsLegacyTransaction :: "bool option"
  ComputeUnitPriceMicroLamports :: "64 word option"
  DestinationWallet :: string

record SwapResponse =
  SwapTransaction :: string

record PriceParams =
  IDs :: string
  VsToken :: string
  VsAmount :: real

record IndexedRoutesMap =
  MintKeys :: "string list"
  IndexedRouteMap :: "string \<rightharpoonup> int list"

record BestSwapParams =
  UserPublicKey :: string
  DestinationPublicKey :: string
  FeeAmount :: "64 word"
  FeeAccount :: string
  InputMint :: string
  OutputMint :: string
  Amount :: "64 word"
  SwapMode :: string

record ExchangeRateParams =
  InputMint :: string
  OutputMint :: string
  Amount :: "64 word"
  SwapMode :: string

record Rate =
  InputMint :: string
  OutputMint :: string
  InAmount :: "64 word"
  OutAmount :: "64 word"

definition SwapModeExactIn :: string where
  "SwapModeExactIn = ''ExactIn''"

definition SwapModeExactOut :: string where
  "SwapModeExactOut = ''ExactOut''"

text \<open>
  Modelled from the spec: the client file that has \<^verbatim>\<open>BestSwap\<close> and \<^verbatim>\<open>ExchangeRate\<close> is
  written against declarations that are not among the sources: a quote response that is a
  list of routes, a route with string amounts, quote parameters with a fee, swap
  parameters holding such a route. The three records below have the fields that file
  reads and writes; the quote response is the list of such routes.
\<close>

record Route_001 =
  InAmount :: string
  OutAmount :: string

record QuoteParams_001 =
  InputMint :: string
  OutputMint :: string
  Amount :: "64 word"
  FeeBps :: "64 word"
  SwapMode :: string
  OnlyDirectRoutes :: bool

record SwapParams_001 =
  Route :: Route_001
  UserPublicKey :: string
  DestinationWallet :: string
  FeeAccount :: string
  WrapUnwrapSol :: "bool option"
  AsLegacyTransaction :: "bool option"

type_synonym QuoteResponse_001 = "Route_001 list"

section \<open>Errors, values of type any, HTTP messages\<close>

text \<open>
  An \<^verbatim>\<open>error\<close> is a value: the errors the client makes itself, the errors of library
  calls (opaque, with their message), and \<^verbatim>\<open>fmt.Errorf("msg: %w", err)\<close>, which wraps one.
\<close>

datatype error =
  LibError string
  | StructIsNil
  | UnexpectedStatusCode int
  | NoQuotesReturned
  | NoRoutes
  | NumErr NumError
  | Errorf string error

datatype panic = IndexOutOfRange

type_synonym Values = "(string \<times> string list) list"

datatype any =
  any_nil
  | any_Values Values
  | any_QuoteParams QuoteParams
  | any_PriceParams PriceParams
  | any_SwapParams SwapParams
  | any_QuoteParams_001 QuoteParams_001
  | any_SwapParams_001 SwapParams_001

record URL =
  Scheme :: string
  Host :: string
  Path :: string
  RawQuery :: string
  Fragment :: string

record http_Request =
  Method :: string
  Url :: string
  Header :: "string \<rightharpoonup> string list"
  Body :: string

record http_Response =
  StatusCode :: int
  Body :: string

text \<open>
  The calls into net/url, go-querystring, encoding/json, net/http and the transport are
  parameters of the model. \<open>client_Do\<close> is what the transport answers to a request,
  given the client's configuration and the requests it was handed before.
  \<open>better\<close> is the comparison of two routes.
\<close>

record lib =
  url_Parse :: "string \<Rightarrow> error + URL"
  URL_String :: "URL \<Rightarrow> string"
  Values_Encode :: "Values \<Rightarrow> string"
  query_Values :: "any \<Rightarrow> error + Values"
  json_Marshal :: "any \<Rightarrow> error + string"
  http_NewRequest :: "string \<Rightarrow> string \<Rightarrow> string \<Rightarrow> error + http_Request"
  client_Do :: "Client \<Rightarrow> http_Request list \<Rightarrow> http_Request \<Rightarrow> error + http_Response"
  Decode_Response :: "string \<Rightarrow> error + Response"
  Decode_SwapResponse :: "string \<Rightarrow> error + SwapResponse"
  Decode_IndexedRoutesMap :: "string \<Rightarrow> error + IndexedRoutesMap"
  Unmarshal_QuoteResponse :: "RawMessage \<Rightarrow> error + QuoteResponse"
  Unmarshal_PriceMap :: "RawMessage \<Rightarrow> error + PriceMap"
  Unmarshal_QuoteResponse_001 :: "RawMessage \<Rightarrow> error + QuoteResponse_001"
  better :: "Route_001 \<Rightarrow> Route_001 \<Rightarrow> bool"

section \<open>utils\<close>

definition StructToUrlValues :: "lib \<Rightarrow> any \<Rightarrow> error + Values" where
  "StructToUrlValues l v =
     (case v of
        any_nil \<Rightarrow> Inl StructIsNil
      | any_Values uv \<Rightarrow> Inr uv
      | _ \<Rightarrow>
          (case query_Values l v of
             Inl err \<Rightarrow> Inl (Errorf ''failed to convert struct to url values'' err)
           | Inr uv \<Rightarrow> Inr uv))"

section \<open>GetRoutesForMint\<close>

text \<open>
  Indexing a Go map at a missing key gives the zero value, here the nil slice, which has
  no elements. Indexing a slice outside its bounds panics.
\<close>

definition map_index :: "(string \<rightharpoonup> int list) \<Rightarrow> string \<Rightarrow> int list" where
  "map_index m k = (case m k of None \<Rightarrow> [] | Some v \<Rightarrow> v)"

fun GetRoutesForMint_find ::
  "IndexedRoutesMap \<Rightarrow> string \<Rightarrow> nat \<Rightarrow> string list \<Rightarrow> int list \<Rightarrow> int list" where
  "GetRoutesForMint_find r mint key [] mintKeys = mintKeys"
| "GetRoutesForMint_find r mint key (val # rest) mintKeys =
     GetRoutesForMint_find r mint (key + 1) rest
       (if val = mint then map_index (IndexedRouteMap r) (Itoa (int key)) else mintKeys)"

fun GetRoutesForMint_collect ::
  "IndexedRoutesMap \<Rightarrow> int list \<Rightarrow> string list \<Rightarrow> panic + string list" where
  "GetRoutesForMint_collect r [] result = Inr result"
| "GetRoutesForMint_collect r (key # keys) result =
     (if 0 \<le> key \<and> key < int (length (MintKeys r))
      then GetRoutesForMint_collect r keys (result @ [MintKeys r ! nat key])
      else Inl IndexOutOfRange)"

definition GetRoutesForMint :: "IndexedRoutesMap \<Rightarrow> string \<Rightarrow> panic + string list" where
  "GetRoutesForMint r mint =
     (let mintKeys = GetRoutesForMint_find r mint 0 (MintKeys r) []
      in GetRoutesForMint_collect r mintKeys [])"

definition in_range :: "IndexedRoutesMap \<Rightarrow> int \<Rightarrow> bool" where
  "in_range r k = (0 \<le> k \<and> k < int (length (MintKeys r)))"

section \<open>The client\<close>

record JupagImpl =
  jupagImpl :: Client
  apiUrl :: string
  quotePath :: string
  swapPath :: string
  pricePath :: string
  routesMapPath :: string

text \<open>
  The receiver of every method is a pointer to a \<^typ>\<open>JupagImpl\<close>. The state a method runs
  in holds the object behind that pointer and the requests handed to the transport so
  far; a method returns its results and the state it leaves.
\<close>

record state =
  receiver :: JupagImpl
  sent :: "http_Request list"

definition NewJupag :: JupagImpl where
  "NewJupag =
     (let timeout = 3000 * Millisecond;
          cl = NewClient
            [WithHTTPTimeout timeout,
             WithRetryCount 1,
             WithRetrier (NewRetrier (NewConstantBackoff (500 * Millisecond) (1000 * Millisecond)))]
      in \<lparr>jupagImpl = cl,
          apiUrl = ''https://quote-proxy.jup.ag'',
          quotePath = ''/quote'',
          swapPath = ''/swap'',
          pricePath = ''/price'',
          routesMapPath = ''/indexed-route-map''\<rparr>)"

definition NewJupag_001 :: JupagImpl where
  "NewJupag_001 =
     (let timeout = 500 * Millisecond;
          cl = NewClient
            [WithHTTPTimeout timeout,
             WithRetryCount 1,
             WithRetrier (NewRetrier (NewConstantBackoff (500 * Millisecond) (1000 * Millisecond)))]
      in \<lparr>jupagImpl = cl,
          apiUrl = ''https://price.jup.ag/v6'',
          quotePath = ''/quote'',
          swapPath = ''/swap'',
          pricePath = ''/price'',
          routesMapPath = ''/indexed-route-map''\<rparr>)"

definition Do :: "lib \<Rightarrow> http_Request \<Rightarrow> state \<Rightarrow> (error + http_Response) \<times> state" where
  "Do l req st =
     (client_Do l (jupagImpl (receiver st)) (sent st) req, st\<lparr>sent := sent st @ [req]\<rparr>)"

definition Header_Set :: "http_Request \<Rightarrow> string \<Rightarrow> string \<Rightarrow> http_Request" where
  "Header_Set req k v = req\<lparr>Header := (Header req)(k \<mapsto> [v])\<rparr>"

definition request ::
  "lib \<Rightarrow> string \<Rightarrow> string \<Rightarrow> any \<Rightarrow> any \<Rightarrow> state \<Rightarrow> (error + http_Response) \<times> state" where
  "request l method endpoint params body st =
     (case url_Parse l endpoint of
        Inl err \<Rightarrow> (Inl err, st)
      | Inr u \<Rightarrow>
          (case StructToUrlValues l params of
             Inl err \<Rightarrow> (Inl (Errorf ''failed to convert params to url values'' err), st)
           | Inr uv \<Rightarrow>
               let completeUrl = URL_String l (u\<lparr>RawQuery := Values_Encode l uv\<rparr>)
               in (case json_Marshal l body of
                     Inl err \<Rightarrow>
                       if body \<noteq> any_nil then (Inl err, st)
                       else
                         (case http_NewRequest l method completeUrl [] of
                            Inl err \<Rightarrow> (Inl err, st)
                          | Inr req \<Rightarrow> Do l (Header_Set req ''Cache-Control'' ''no-cache'') st)
                   | Inr data \<Rightarrow>
                       (case http_NewRequest l method completeUrl data of
                          Inl err \<Rightarrow> (Inl err, st)
                        | Inr req \<Rightarrow> Do l (Header_Set req ''Cache-Control'' ''no-cache'') st))))"

definition request_001 ::
  "lib \<Rightarrow> string \<Rightarrow> string \<Rightarrow> any \<Rightarrow> any \<Rightarrow> state \<Rightarrow> (error + http_Response) \<times> state" where
  "request_001 l method endpoint params body st =
     (case url_Parse l endpoint of
        Inl err \<Rightarrow> (Inl err, st)
      | Inr u \<Rightarrow>
          (case StructToUrlValues l params of
             Inl err \<Rightarrow> (Inl (Errorf ''failed to convert params to url values'' err), st)
           | Inr uv \<Rightarrow>
               let completeUrl = URL_String l (u\<lparr>RawQuery := Values_Encode l uv\<rparr>)
               in (case json_Marshal l body of
                     Inl err \<Rightarrow>
                       if body \<noteq> any_nil then (Inl err, st)
                       else
                         (case http_NewRequest l method completeUrl [] of
                            Inl err \<Rightarrow> (Inl err, st)
                          | Inr req \<Rightarrow> Do l req st)
                   | Inr data \<Rightarrow>
                       (case http_NewRequest l method completeUrl data of
                          Inl err \<Rightarrow> (Inl err, st)
                        | Inr req \<Rightarrow> Do l req st))))"

text \<open>\<^verbatim>\<open>parseResponse\<close> reads the same in both client files and does not touch the receiver.\<close>

definition parseResponse :: "lib \<Rightarrow> http_Response \<Rightarrow> error + RawMessage" where
  "parseResponse l resp =
     (if StatusCode resp \<noteq> 200 then Inl (UnexpectedStatusCode (StatusCode resp))
      else
        (case Decode_Response l (http_Response.Body resp) of
           Inl err \<Rightarrow> Inl (Errorf ''failed to decode response'' err)
         | Inr response \<Rightarrow> Inr (Data response)))"

definition Quote :: "lib \<Rightarrow> QuoteParams \<Rightarrow> state \<Rightarrow> (error + QuoteResponse) \<times> state" where
  "Quote l params st =
     (let c = receiver st in
      case request l ''GET'' (apiUrl c @ quotePath c) (any_QuoteParams params) any_nil st of
        (Inl err, st') \<Rightarrow> (Inl err, st')
      | (Inr resp, st') \<Rightarrow>
          (case parseResponse l resp of
             Inl err \<Rightarrow> (Inl (Errorf ''failed to parse quote response'' err), st')
           | Inr data \<Rightarrow>
               (case Unmarshal_QuoteResponse l data of
                  Inl err \<Rightarrow> (Inl (Errorf ''failed to parse quote response'' err), st')
                | Inr quote \<Rightarrow> (Inr quote, st'))))"

definition Swap :: "lib \<Rightarrow> SwapParams \<Rightarrow> state \<Rightarrow> (error + string) \<times> state" where
  "Swap l params st =
     (let c = receiver st in
      case request l ''POST'' (apiUrl c @ swapPath c) any_nil (any_SwapParams params) st of
        (Inl err, st') \<Rightarrow> (Inl (Errorf ''failed to make swap request'' err), st')
      | (Inr resp, st') \<Rightarrow>
          if StatusCode resp \<noteq> 200 then (Inl (UnexpectedStatusCode (StatusCode resp)), st')
          else
            (case Decode_SwapResponse l (http_Response.Body resp) of
               Inl err \<Rightarrow> (Inl (Errorf ''failed to decode response'' err), st')
             | Inr response \<Rightarrow> (Inr (SwapTransaction response), st')))"

definition Price :: "lib \<Rightarrow> PriceParams \<Rightarrow> state \<Rightarrow> (error + PriceMap) \<times> state" where
  "Price l params st =
     (let c = receiver st in
      case request l ''GET'' (apiUrl c @ pricePath c) (any_PriceParams params) any_nil st of
        (Inl err, st') \<Rightarrow> (Inl (Errorf ''failed to make price request'' err), st')
      | (Inr resp, st') \<Rightarrow>
          (case parseResponse l resp of
             Inl err \<Rightarrow> (Inl (Errorf ''failed to parse price response'' err), st')
           | Inr data \<Rightarrow>
               (case Unmarshal_PriceMap l data of
                  Inl err \<Rightarrow> (Inl (Errorf ''failed to parse price response'' err), st')
                | Inr price \<Rightarrow> (Inr price, st'))))"

definition RoutesMap :: "lib \<Rightarrow> bool \<Rightarrow> state \<Rightarrow> (error + IndexedRoutesMap) \<times> state" where
  "RoutesMap l onlyDirectRoutes st =
     (let c = receiver st in
      case request l ''GET'' (apiUrl c @ routesMapPath c)
             (any_Values [(''onlyDirectRoutes'', [FormatBool onlyDirectRoutes])]) any_nil st of
        (Inl err, st') \<Rightarrow> (Inl (Errorf ''failed to make routes map request'' err), st')
      | (Inr resp, st') \<Rightarrow>
          (case Decode_IndexedRoutesMap l (http_Response.Body resp) of
             Inl err \<Rightarrow> (Inl (Errorf ''failed to parse routes map response'' err), st')
           | Inr routesMap \<Rightarrow> (Inr routesMap, st')))"

subsection \<open>The client file with BestSwap and ExchangeRate\<close>

definition Quote_001 ::
  "lib \<Rightarrow> QuoteParams_001 \<Rightarrow> state \<Rightarrow> (error + QuoteResponse_001) \<times> state" where
  "Quote_001 l params st =
     (let c = receiver st in
      case request_001 l ''GET'' (apiUrl c @ quotePath c) (any_QuoteParams_001 params) any_nil st of
        (Inl err, st') \<Rightarrow> (Inl (Errorf ''failed to make quote request'' err), st')
      | (Inr resp, st') \<Rightarrow>
          (case parseResponse l resp of
             Inl err \<Rightarrow> (Inl (Errorf ''failed to parse quote response'' err), st')
           | Inr data \<Rightarrow>
               (case Unmarshal_QuoteResponse_001 l data of
                  Inl err \<Rightarrow> (Inl (Errorf ''failed to parse quote response'' err), st')
                | Inr quotes \<Rightarrow>
                    if length quotes = 0 then (Inl NoQuotesReturned, st')
                    else (Inr quotes, st'))))"

definition Swap_001 :: "lib \<Rightarrow> SwapParams_001 \<Rightarrow> state \<Rightarrow> (error + string) \<times> state" where
  "Swap_001 l params st =
     (let c = receiver st in
      case request_001 l ''POST'' (apiUrl c @ swapPath c) any_nil (any_SwapParams_001 params) st of
        (Inl err, st') \<Rightarrow> (Inl (Errorf ''failed to make swap request'' err), st')
      | (Inr resp, st') \<Rightarrow>
          if StatusCode resp \<noteq> 200 then (Inl (UnexpectedStatusCode (StatusCode resp)), st')
          else
            (case Decode_SwapResponse l (http_Response.Body resp) of
               Inl err \<Rightarrow> (Inl (Errorf ''failed to decode response'' err), st')
             | Inr response \<Rightarrow> (Inr (SwapTransaction response), st')))"

definition Price_001 :: "lib \<Rightarrow> PriceParams \<Rightarrow> state \<Rightarrow> (error + PriceMap) \<times> state" where
  "Price_001 l params st =
     (let c = receiver st in
      case request_001 l ''GET'' (apiUrl c @ pricePath c) (any_PriceParams params) any_nil st of
        (Inl err, st') \<Rightarrow> (Inl (Errorf ''failed to make price request'' err), st')
      | (Inr resp, st') \<Rightarrow>
          (case parseResponse l resp of
             Inl err \<Rightarrow> (Inl (Errorf ''failed to parse price response'' err), st')
           | Inr data \<Rightarrow>
               (case Unmarshal_PriceMap l data of
                  Inl err \<Rightarrow> (Inl (Errorf ''failed to parse price response'' err), st')
                | Inr price \<Rightarrow> (Inr price, st'))))"

definition RoutesMap_001 :: "lib \<Rightarrow> bool \<Rightarrow> state \<Rightarrow> (error + IndexedRoutesMap) \<times> state" where
  "RoutesMap_001 l onlyDirectRoutes st =
     (let c = receiver st in
      case request_001 l ''GET'' (apiUrl c @ routesMapPath c)
             (any_Values [(''onlyDirectRoutes'', [FormatBool onlyDirectRoutes])]) any_nil st of
        (Inl err, st') \<Rightarrow> (Inl (Errorf ''failed to make routes map request'' err), st')
      | (Inr resp, st') \<Rightarrow>
          (case Decode_IndexedRoutesMap l (http_Response.Body resp) of
             Inl err \<Rightarrow> (Inl (Errorf ''failed to parse routes map response'' err), st')
           | Inr routesMap \<Rightarrow> (Inr routesMap, st')))"

text \<open>
  Modelled from the spec: \<^verbatim>\<open>GetBestRoute\<close>, the method of the quote response that
  \<^verbatim>\<open>BestSwap\<close> and \<^verbatim>\<open>ExchangeRate\<close> call, is not among the sources. The spec describes it as
  a linear scan that picks a best route from the list returned by the remote server, by
  comparison: the scan keeps the best route seen so far and replaces it when the next
  route compares better. Which of two routes is better is not said; it is the parameter
  \<open>better\<close>. An empty list has no best route and gives an error.
\<close>

fun GetBestRoute_scan ::
  "(Route_001 \<Rightarrow> Route_001 \<Rightarrow> bool) \<Rightarrow> Route_001 \<Rightarrow> Route_001 list \<Rightarrow> Route_001" where
  "GetBestRoute_scan btr best [] = best"
| "GetBestRoute_scan btr best (r # rs) =
     GetBestRoute_scan btr (if btr r best then r else best) rs"

definition GetBestRoute ::
  "(Route_001 \<Rightarrow> Route_001 \<Rightarrow> bool) \<Rightarrow> QuoteResponse_001 \<Rightarrow> error + Route_001" where
  "GetBestRoute btr q =
     (case q of
        [] \<Rightarrow> Inl NoRoutes
      | r # rs \<Rightarrow> Inr (GetBestRoute_scan btr r rs))"

definition BestSwap :: "lib \<Rightarrow> BestSwapParams \<Rightarrow> state \<Rightarrow> (error + string) \<times> state" where
  "BestSwap l params0 st =
     (let params =
            (if BestSwapParams.SwapMode params0 = []
             then params0\<lparr>BestSwapParams.SwapMode := SwapModeExactIn\<rparr> else params0)
      in case Quote_001 l
                \<lparr>QuoteParams_001.InputMint = BestSwapParams.InputMint params,
                 OutputMint = BestSwapParams.OutputMint params,
                 Amount = BestSwapParams.Amount params,
                 FeeBps = FeeAmount params,
                 SwapMode = BestSwapParams.SwapMode params,
                 OnlyDirectRoutes = False\<rparr> st of
           (Inl err, st1) \<Rightarrow> (Inl err, st1)
         | (Inr routes, st1) \<Rightarrow>
             (case GetBestRoute (better l) routes of
                Inl err \<Rightarrow> (Inl err, st1)
              | Inr route \<Rightarrow>
                  (case Swap_001 l
                          \<lparr>SwapParams_001.Route = route,
                           UserPublicKey = BestSwapParams.UserPublicKey params,
                           DestinationWallet = DestinationPublicKey params,
                           FeeAccount = BestSwapParams.FeeAccount params,
                           WrapUnwrapSol = Some True,
                           AsLegacyTransaction = Some True\<rparr> st1 of
                     (Inl err, st2) \<Rightarrow> (Inl err, st2)
                   | (Inr swap, st2) \<Rightarrow> (Inr swap, st2))))"

text \<open>
  \<^verbatim>\<open>ExchangeRate\<close> returns its \<^verbatim>\<open>Rate\<close> also when it returns an error, so its result is a
  pair of the rate and the error, \<^term>\<open>None\<close> for \<^verbatim>\<open>nil\<close>.
\<close>

definition ExchangeRate ::
  "lib \<Rightarrow> ExchangeRateParams \<Rightarrow> state \<Rightarrow> (Rate \<times> error option) \<times> state" where
  "ExchangeRate l params st =
     (let result = \<lparr>Rate.InputMint = ExchangeRateParams.InputMint params,
                    OutputMint = ExchangeRateParams.OutputMint params,
                    InAmount = 0, OutAmount = 0\<rparr>
      in case Quote_001 l
                \<lparr>QuoteParams_001.InputMint = ExchangeRateParams.InputMint params,
                 OutputMint = ExchangeRateParams.OutputMint params,
                 Amount = ExchangeRateParams.Amount params,
                 FeeBps = 0,
                 SwapMode = ExchangeRateParams.SwapMode params,
                 OnlyDirectRoutes = False\<rparr> st of
           (Inl err, st1) \<Rightarrow> ((result, Some err), st1)
         | (Inr routes, st1) \<Rightarrow>
             (case GetBestRoute (better l) routes of
                Inl err \<Rightarrow> ((result, Some err), st1)
              | Inr route \<Rightarrow>
                  (case ParseInt (Route_001.InAmount route) of
                     (inAmount, Some err) \<Rightarrow>
                       ((result, Some (Errorf ''failed to parse in amount'' (NumErr err))), st1)
                   | (inAmount, None) \<Rightarrow>
                       (case ParseInt (Route_001.OutAmount route) of
                          (outAmount, Some err) \<Rightarrow>
                            ((result, Some (Errorf ''failed to parse out amount'' (NumErr err))), st1)
                        | (outAmount, None) \<Rightarrow>
                            ((result\<lparr>Rate.InAmount := inAmount, Rate.OutAmount := outAmount\<rparr>,
                              None), st1)))))"

text \<open>
  The quote parameters \<^verbatim>\<open>ExchangeRate\<close> builds from its own, and the \<^verbatim>\<open>Rate\<close> it returns
  for two amounts, as notation for the statements below.
\<close>

abbreviation ExchangeRate_QuoteParams :: "ExchangeRateParams \<Rightarrow> QuoteParams_001" where
  "ExchangeRate_QuoteParams params \<equiv>
     \<lparr>QuoteParams_001.InputMint = ExchangeRateParams.InputMint params,
      OutputMint = ExchangeRateParams.OutputMint params,
      Amount = ExchangeRateParams.Amount params,
      FeeBps = 0,
      SwapMode = ExchangeRateParams.SwapMode params,
      OnlyDirectRoutes = False\<rparr>"

abbreviation ExchangeRate_result :: "ExchangeRateParams \<Rightarrow> 64 word \<Rightarrow> 64 word \<Rightarrow> Rate" where
  "ExchangeRate_result params a b \<equiv>
     \<lparr>Rate.InputMint = ExchangeRateParams.InputMint params,
      OutputMint = ExchangeRateParams.OutputMint params,
      InAmount = a, OutAmount = b\<rparr>"

subsection \<open>Sequences of calls\<close>

datatype call =
  call_Quote QuoteParams
  | call_Swap SwapParams
  | call_Price PriceParams
  | call_RoutesMap bool
  | call_Quote_001 QuoteParams_001
  | call_Swap_001 SwapParams_001
  | call_Price_001 PriceParams
  | call_RoutesMap_001 bool
  | call_BestSwap BestSwapParams
  | call_ExchangeRate ExchangeRateParams

fun invoke :: "lib \<Rightarrow> state \<Rightarrow> call \<Rightarrow> state" where
  "invoke l st (call_Quote p) = snd (Quote l p st)"
| "invoke l st (call_Swap p) = snd (Swap l p st)"
| "invoke l st (call_Price p) = snd (Price l p st)"
| "invoke l st (call_RoutesMap b) = snd (RoutesMap l b st)"
| "invoke l st (call_Quote_001 p) = snd (Quote_001 l p st)"
| "invoke l st (call_Swap_001 p) = snd (Swap_001 l p st)"
| "invoke l st (call_Price_001 p) = snd (Price_001 l p st)"
| "invoke l st (call_RoutesMap_001 b) = snd (RoutesMap_001 l b st)"
| "invoke l st (call_BestSwap p) = snd (BestSwap l p st)"
| "invoke l st (call_ExchangeRate p) = snd (ExchangeRate l p st)"

definition run :: "lib \<Rightarrow> call list \<Rightarrow> state \<Rightarrow> state" where
  "run l calls st = foldl (invoke l) st calls"

section \<open>Examples\<close>

text \<open>
  Small concrete values for the statements that need an instance: two route maps, a fresh
  client, and a library reduced to what the instances use. Its transport always answers
  with one given response and its decoder of the quote payload always yields one given
  list of routes; it parses every endpoint but \<open>:\<close> (which has no scheme) and keeps the
  endpoint whole as the path, so that the URL string is the endpoint, a question mark and
  the query; it decodes every body as an envelope holding that body.
\<close>

definition example_routes :: IndexedRoutesMap where
  "example_routes =
     \<lparr>MintKeys = [''SOL'', ''USDC'', ''SOL''],
      IndexedRouteMap = [''0'' \<mapsto> [1], ''2'' \<mapsto> [1, 0]]\<rparr>"

definition example_bad_routes :: IndexedRoutesMap where
  "example_bad_routes = \<lparr>MintKeys = [''SOL''], IndexedRouteMap = [''0'' \<mapsto> [1]]\<rparr>"

definition example_lib :: "http_Response \<Rightarrow> QuoteResponse_001 \<Rightarrow> lib" where
  "example_lib resp routes =
     \<lparr>url_Parse = (\<lambda>s. if s = '':'' then Inl (LibError ''missing protocol scheme'')
                        else Inr \<lparr>Scheme = ''https'', Host = [], Path = s,
                                  RawQuery = [], Fragment = []\<rparr>),
      URL_String = (\<lambda>u. Path u @ ''?'' @ RawQuery u),
      Values_Encode = (\<lambda>uv. concat (map (\<lambda>(k, vs). k @ ''='' @ concat vs) uv)),
      query_Values = (\<lambda>v. Inr []),
      json_Marshal = (\<lambda>v. Inr ''null''),
      http_NewRequest =
        (\<lambda>m u b. Inr \<lparr>Method = m, Url = u, Header = Map.empty, http_Request.Body = b\<rparr>),
      client_Do = (\<lambda>c hist req. Inr resp),
      Decode_Response = (\<lambda>b. Inr \<lparr>Data = b, TimeTaken = 0, ContextSlot = 0\<rparr>),
      Decode_SwapResponse = (\<lambda>b. Inr \<lparr>SwapTransaction = b\<rparr>),
      Decode_IndexedRoutesMap =
        (\<lambda>b. Inr \<lparr>MintKeys = [], IndexedRouteMap = Map.empty\<rparr>),
      Unmarshal_QuoteResponse = (\<lambda>d. Inl (LibError ''unexpected end of JSON input'')),
      Unmarshal_PriceMap = (\<lambda>d. Inr Map.empty),
      Unmarshal_QuoteResponse_001 = (\<lambda>d. Inr routes),
      better = (\<lambda>a b. False)\<rparr>"

definition example_state :: state where
  "example_state = \<lparr>receiver = NewJupag_001, sent = []\<rparr>"

definition example_params :: ExchangeRateParams where
  "example_params =
     \<lparr>ExchangeRateParams.InputMint = ''SOL'', OutputMint = ''USDC'', Amount = 1,
      SwapMode = ''ExactIn''\<rparr>"

definition response_200 :: http_Response where
  "response_200 = \<lparr>StatusCode = 200, http_Response.Body = ''{}''\<rparr>"




definition example_rate_lib :: "string \<Rightarrow> string \<Rightarrow> lib" where
  "example_rate_lib a b =
     example_lib response_200 [\<lparr>Route_001.InAmount = a, OutAmount = b\<rparr>]"



section \<open>Properties\<close>

subsection \<open>strconv\<close>

lemma digit_of_digit:
  assumes "is_digit ch"
  shows "digit_of ch = Some (of_char ch - 48)" and "(of_char ch :: nat) - 48 < 10"
  using assms by (auto simp: is_digit_def digit_of_def Let_def)

lemma dec_val_Cons: "dec_val m (ch # s) = dec_val (m * 10 + (of_char ch - 48)) s"
  by (simp add: dec_val_def)

lemma dec_val_mono: "m \<le> dec_val m s"
proof (induction s arbitrary: m)
  case Nil
  then show ?case by (simp add: dec_val_def)
next
  case (Cons ch s)
  have "m \<le> m * 10 + (of_char ch - 48)" by simp
  also have "\<dots> \<le> dec_val (m * 10 + (of_char ch - 48)) s" by (rule Cons.IH)
  finally show ?case by (simp add: dec_val_Cons)
qed

lemma cutoff10_val: "unat cutoff10 = 1844674407370955162"
  by (simp add: cutoff10_def maxUint64_def)

lemma maxUint64_val: "unat maxUint64 = 18446744073709551615"
  by (simp add: maxUint64_def)

lemma ParseUint_loop_digits:
  assumes "list_all is_digit s"
  shows "ParseUint_loop n s =
           (if dec_val (unat n) s < 2 ^ 64 then (of_nat (dec_val (unat n) s), None)
            else (maxUint64, Some ErrRange))"
  using assms
proof (induction s arbitrary: n)
  case Nil
  have "unat n < 2 ^ 64" using unsigned_less [of n] by simp
  then show ?case by (simp add: dec_val_def)
next
  case (Cons ch s)
  define d where "d = (of_char ch :: nat) - 48"
  have dig: "digit_of ch = Some d" and d10: "d < 10"
    using Cons.prems digit_of_digit [of ch] by (simp_all add: d_def)
  have rest: "list_all is_digit s" using Cons.prems by simp
  show ?case
  proof (cases "cutoff10 \<le> n")
    case True
    then have "1844674407370955162 \<le> unat n"
      by (simp add: word_le_nat_alt cutoff10_val)
    then have "2 ^ 64 \<le> unat n * 10 + d" by simp
    also have "\<dots> \<le> dec_val (unat n * 10 + d) s" by (rule dec_val_mono)
    finally have "\<not> dec_val (unat n) (ch # s) < 2 ^ 64"
      by (simp add: dec_val_Cons d_def)
    with True dig d10 show ?thesis by simp
  next
    case False
    then have small: "unat n < 1844674407370955162"
      by (simp add: word_le_nat_alt cutoff10_val)
    have "unat n * unat (10 :: 64 word) < 2 ^ LENGTH(64)" using small by simp
    then have mul: "unat (n * 10) = unat n * 10"
      using unat_mult_lem [of n "10 :: 64 word"] by simp
    have ud: "unat (of_nat d :: 64 word) = d" using d10 by (simp add: unat_of_nat)
    have le_max: "\<not> (x :: 64 word) > maxUint64" for x
      using unsigned_less [of x, where ?'a = nat] by (simp add: word_less_nat_alt maxUint64_val)
    show ?thesis
    proof (cases "unat n * 10 + d < 2 ^ 64")
      case True
      then have noov: "unat (n * 10) + unat (of_nat d :: 64 word) < 2 ^ LENGTH(64)"
        by (simp add: mul ud)
      then have add: "unat (n * 10 + of_nat d) = unat n * 10 + d"
        using unat_add_lem [of "n * 10" "of_nat d :: 64 word"] by (simp add: mul ud)
      have "n * 10 \<le> n * 10 + of_nat d" using noov by (simp add: no_olen_add_nat)
      then have nolt: "\<not> n * 10 + of_nat d < n * 10" by simp
      have "ParseUint_loop n (ch # s) = ParseUint_loop (n * 10 + of_nat d) s"
        using False dig d10 nolt le_max by (simp add: Let_def)
      also have "\<dots> = (if dec_val (unat (n * 10 + of_nat d)) s < 2 ^ 64
                        then (of_nat (dec_val (unat (n * 10 + of_nat d)) s), None)
                        else (maxUint64, Some ErrRange))"
        by (rule Cons.IH [OF rest])
      also have "dec_val (unat (n * 10 + of_nat d)) s = dec_val (unat n) (ch # s)"
        using add by (simp add: dec_val_Cons d_def)
      finally show ?thesis .
    next
      case ov: False
      then have "\<not> unat (n * 10) + unat (of_nat d :: 64 word) < 2 ^ LENGTH(64)"
        by (simp add: mul ud)
      then have "\<not> n * 10 \<le> n * 10 + of_nat d" by (simp add: no_olen_add_nat)
      then have lt: "n * 10 + of_nat d < n * 10" by simp
      have "2 ^ 64 \<le> unat n * 10 + d" using ov by simp
      also have "\<dots> \<le> dec_val (unat n * 10 + d) s" by (rule dec_val_mono)
      finally have "\<not> dec_val (unat n) (ch # s) < 2 ^ 64"
        by (simp add: dec_val_Cons d_def)
      with False dig d10 lt show ?thesis by (simp add: Let_def)
    qed
  qed
qed

lemma ParseUint_decimal:
  assumes "decimal s"
  shows "ParseUint s =
           (if dec_val 0 s < 2 ^ 64 then (of_nat (dec_val 0 s), None)
            else (maxUint64, Some ErrRange))"
  using assms ParseUint_loop_digits [of s 0] by (simp add: ParseUint_def decimal_def)

lemma is_digit_not_sign:
  assumes "is_digit ch"
  shows "ch \<noteq> CHR ''+''" and "ch \<noteq> CHR ''-''"
  using assms by (auto simp: is_digit_def)

lemma unat_of_nat64: "v < 2 ^ 64 \<Longrightarrow> unat (of_nat v :: 64 word) = v"
  by (simp add: unat_of_nat)

lemma cutoff63_val: "unat (push_bit 63 1 :: 64 word) = 2 ^ 63"
  by simp

lemma ParseInt_decimal:
  assumes "decimal s"
  shows "ParseInt s =
           (if dec_val 0 s < 2 ^ 63 then (of_nat (dec_val 0 s), None)
            else (push_bit 63 1 - 1, Some ErrRange))"
proof -
  have ne: "s \<noteq> []" using assms by (simp add: decimal_def)
  have "is_digit (hd s)" using assms by (cases s) (simp_all add: decimal_def)
  then have sign: "hd s \<noteq> CHR ''+''" "hd s \<noteq> CHR ''-''"
    by (rule is_digit_not_sign)+
  show ?thesis
  proof (cases "dec_val 0 s < 2 ^ 64")
    case True
    then have un: "ParseUint s = (of_nat (dec_val 0 s), None)"
      using ParseUint_decimal [OF assms] by simp
    have "(push_bit 63 1 \<le> (of_nat (dec_val 0 s) :: 64 word)) = (2 ^ 63 \<le> dec_val 0 s)"
      using True by (simp only: word_le_nat_alt cutoff63_val unat_of_nat64)
    then show ?thesis using ne sign un
      by (simp add: ParseInt_def Let_def not_less)
  next
    case False
    then have un: "ParseUint s = (maxUint64, Some ErrRange)"
      using ParseUint_decimal [OF assms] by simp
    have "push_bit 63 1 \<le> maxUint64"
      by (simp only: word_le_nat_alt cutoff63_val maxUint64_val) simp
    moreover have "\<not> dec_val 0 s < 2 ^ 63" using False by simp
    ultimately show ?thesis using ne sign un
      by (simp add: ParseInt_def Let_def)
  qed
qed

lemma ParseInt_minus_decimal:
  assumes "decimal s"
  shows "ParseInt (CHR ''-'' # s) =
           (if dec_val 0 s \<le> 2 ^ 63 then (- of_nat (dec_val 0 s), None)
            else (- push_bit 63 1, Some ErrRange))"
proof (cases "dec_val 0 s < 2 ^ 64")
  case True
  then have un: "ParseUint s = (of_nat (dec_val 0 s), None)"
    using ParseUint_decimal [OF assms] by simp
  have "(push_bit 63 1 < (of_nat (dec_val 0 s) :: 64 word)) = (2 ^ 63 < dec_val 0 s)"
    using True by (simp only: word_less_nat_alt cutoff63_val unat_of_nat64)
  then show ?thesis using un
    by (simp add: ParseInt_def Let_def not_le)
next
  case False
  then have un: "ParseUint s = (maxUint64, Some ErrRange)"
    using ParseUint_decimal [OF assms] by simp
  have "push_bit 63 1 < maxUint64"
    by (simp only: word_less_nat_alt cutoff63_val maxUint64_val) simp
  moreover have "\<not> dec_val 0 s \<le> 2 ^ 63" using False by simp
  ultimately show ?thesis using un
    by (simp add: ParseInt_def Let_def)
qed

lemma unat_minus_of_nat64:
  assumes "0 < n" and "n \<le> 2 ^ 63"
  shows "unat (- (of_nat n :: 64 word)) = 2 ^ 64 - n"
proof -
  have lt: "n < 2 ^ 64" using assms(2) by simp
  have "int (unat (of_nat n :: 64 word)) = int n" using lt by (simp add: unat_of_nat64)
  then have "uint (of_nat n :: 64 word) = int n" by simp
  then have "uint (- (of_nat n :: 64 word)) = (- int n) mod 2 ^ 64"
    by (simp add: uint_word_ariths)
  also have "\<dots> = 2 ^ 64 - int n"
    using assms(1) lt by (simp add: zmod_zminus1_eq_if)
  finally have "uint (- (of_nat n :: 64 word)) = 2 ^ 64 - int n" .
  then have "int (unat (- (of_nat n :: 64 word))) = int (2 ^ 64 - n)"
    using lt by (simp add: of_nat_diff)
  then show ?thesis by (simp only: of_nat_eq_iff)
qed

subsection \<open>GetRoutesForMint\<close>

lemma find_absent:
  "mint \<notin> set vals \<Longrightarrow> GetRoutesForMint_find r mint key vals acc = acc"
  by (induction vals arbitrary: key acc) auto

lemma find_last:
  "mint \<notin> set post \<Longrightarrow>
   GetRoutesForMint_find r mint key (pre @ mint # post) acc =
     map_index (IndexedRouteMap r) (Itoa (int (key + length pre)))"
proof (induction pre arbitrary: key acc)
  case Nil
  then show ?case by (simp add: find_absent)
next
  case (Cons v pre)
  have "GetRoutesForMint_find r mint key ((v # pre) @ mint # post) acc =
        GetRoutesForMint_find r mint (key + 1) (pre @ mint # post)
          (if v = mint then map_index (IndexedRouteMap r) (Itoa (int key)) else acc)"
    by simp
  also have "\<dots> = map_index (IndexedRouteMap r) (Itoa (int (key + 1 + length pre)))"
    by (rule Cons.IH [OF Cons.prems])
  finally show ?case by simp
qed

lemma find_last_index:
  assumes "i < length (MintKeys r)" and "MintKeys r ! i = mint"
    and "\<forall>j. i < j \<and> j < length (MintKeys r) \<longrightarrow> MintKeys r ! j \<noteq> mint"
  shows "GetRoutesForMint_find r mint 0 (MintKeys r) [] =
           map_index (IndexedRouteMap r) (Itoa (int i))"
proof -
  let ?xs = "MintKeys r"
  have split: "?xs = take i ?xs @ mint # drop (Suc i) ?xs"
    using assms(1,2) id_take_nth_drop by blast
  have "mint \<notin> set (drop (Suc i) ?xs)"
  proof
    assume "mint \<in> set (drop (Suc i) ?xs)"
    then obtain k where k: "k < length (drop (Suc i) ?xs)" "drop (Suc i) ?xs ! k = mint"
      by (auto simp: in_set_conv_nth)
    then have "Suc i + k < length ?xs" "?xs ! (Suc i + k) = mint" by auto
    with assms(3) show False by (metis less_add_Suc1 add_Suc)
  qed
  then have "GetRoutesForMint_find r mint 0 (take i ?xs @ mint # drop (Suc i) ?xs) [] =
        map_index (IndexedRouteMap r) (Itoa (int (0 + length (take i ?xs))))"
    by (rule find_last)
  moreover have "length (take i ?xs) = i" using assms(1) by simp
  ultimately show ?thesis using split by simp
qed

lemma collect_in_range:
  "list_all (in_range r) keys \<Longrightarrow>
   GetRoutesForMint_collect r keys acc = Inr (acc @ map (\<lambda>k. MintKeys r ! nat k) keys)"
  by (induction keys arbitrary: acc) (auto simp: in_range_def)

lemma collect_out_of_range:
  "\<not> list_all (in_range r) keys \<Longrightarrow>
   GetRoutesForMint_collect r keys acc = Inl IndexOutOfRange"
  by (induction keys arbitrary: acc) (auto simp: in_range_def)

lemma Itoa_0: "Itoa 0 = ''0''"
  by code_simp

lemma Itoa_2: "Itoa 2 = ''2''"
  by code_simp



text \<open>
  C6. The indexing \<open>MintKeys[key]\<close> is unguarded. With \<open>i\<close> the last index of the mint,
  \<open>GetRoutesForMint\<close> panics with an index out of range exactly when some index stored in
  \<open>IndexedRouteMap\<close> under the decimal string of \<open>i\<close> is negative or at least the length of
  \<open>MintKeys\<close>; so it returns only if every stored index is less than that length. A route
  map with one mint and the stored index 1 makes it panic.
\<close>

theorem GetRoutesForMint_panics_iff:
  "(i < length (MintKeys r) \<and> MintKeys r ! i = mint \<and>
    (\<forall>j. i < j \<and> j < length (MintKeys r) \<longrightarrow> MintKeys r ! j \<noteq> mint) \<longrightarrow>
      (GetRoutesForMint r mint = Inl IndexOutOfRange) =
        (\<exists>k \<in> set (map_index (IndexedRouteMap r) (Itoa (int i))).
           k < 0 \<or> int (length (MintKeys r)) \<le> k)) \<and>
   GetRoutesForMint example_bad_routes ''SOL'' = Inl IndexOutOfRange"
proof (intro conjI impI)
  let ?keys = "map_index (IndexedRouteMap r) (Itoa (int i))"
  assume h: "i < length (MintKeys r) \<and> MintKeys r ! i = mint \<and>
    (\<forall>j. i < j \<and> j < length (MintKeys r) \<longrightarrow> MintKeys r ! j \<noteq> mint)"
  then have f: "GetRoutesForMint_find r mint 0 (MintKeys r) [] = ?keys"
    using find_last_index [of i r mint] by blast
  have r: "list_all (in_range r) ?keys =
      (\<not> (\<exists>k \<in> set ?keys. k < 0 \<or> int (length (MintKeys r)) \<le> k))"
    by (auto simp: list_all_iff in_range_def)
  show "(GetRoutesForMint r mint = Inl IndexOutOfRange) =
      (\<exists>k \<in> set ?keys. k < 0 \<or> int (length (MintKeys r)) \<le> k)"
  proof (cases "list_all (in_range r) ?keys")
    case True
    then show ?thesis using f r by (simp add: GetRoutesForMint_def collect_in_range)
  next
    case False
    then show ?thesis using f r by (simp add: GetRoutesForMint_def collect_out_of_range)
  qed
next
  show "GetRoutesForMint example_bad_routes ''SOL'' = Inl IndexOutOfRange"
    by (simp add: GetRoutesForMint_def example_bad_routes_def map_index_def Itoa_0)
qed

theorem GetRoutesForMint_panics_iff_witness:
  "GetRoutesForMint example_routes ''SOL'' \<noteq> Inl IndexOutOfRange \<and>
   GetRoutesForMint example_bad_routes ''SOL'' = Inl IndexOutOfRange"
proof -
  have keys: "map_index (IndexedRouteMap example_routes) (Itoa (int 2)) = [1, 0]"
    by (simp add: example_routes_def map_index_def Itoa_2)
  have last: "\<forall>j. 2 < j \<and> j < length (MintKeys example_routes) \<longrightarrow>
      MintKeys example_routes ! j \<noteq> ''SOL''"
    by (auto simp: example_routes_def)
  have "2 < length (MintKeys example_routes) \<and> MintKeys example_routes ! 2 = ''SOL''"
    by (simp add: example_routes_def)
  with last have "(GetRoutesForMint example_routes ''SOL'' = Inl IndexOutOfRange) =
      (\<exists>k \<in> set [1, 0]. k < 0 \<or> int (length (MintKeys example_routes)) \<le> k)"
    using GetRoutesForMint_panics_iff [of 2 example_routes "''SOL''"] keys by simp
  then have "GetRoutesForMint example_routes ''SOL'' \<noteq> Inl IndexOutOfRange"
    by (simp add: example_routes_def)
  then show ?thesis
    using GetRoutesForMint_panics_iff [of 2 example_routes "''SOL''"] by blast
qed

subsection \<open>The receiver is only read\<close>

lemma Do_receiver: "receiver (snd (Do l req st)) = receiver st"
  by (simp add: Do_def)

lemma request_receiver: "receiver (snd (request l m e p b st)) = receiver st"
  by (simp add: request_def Do_receiver Let_def split: sum.splits)

lemma request_001_receiver: "receiver (snd (request_001 l m e p b st)) = receiver st"
  by (simp add: request_001_def Do_receiver Let_def split: sum.splits)

lemma Quote_receiver: "receiver (snd (Quote l p st)) = receiver st"
proof -
  let ?c = "receiver st"
  obtain res st' where r:
    "request l ''GET'' (apiUrl ?c @ quotePath ?c) (any_QuoteParams p) any_nil st = (res, st')"
    by (cases "request l ''GET'' (apiUrl ?c @ quotePath ?c) (any_QuoteParams p) any_nil st")
  then have "receiver st' = receiver st"
    using request_receiver [of l "''GET''" "apiUrl ?c @ quotePath ?c" "any_QuoteParams p" any_nil st]
    by simp
  then show ?thesis using r by (simp add: Quote_def Let_def split: sum.splits)
qed

lemma Swap_receiver: "receiver (snd (Swap l p st)) = receiver st"
proof -
  let ?c = "receiver st"
  obtain res st' where r:
    "request l ''POST'' (apiUrl ?c @ swapPath ?c) any_nil (any_SwapParams p) st = (res, st')"
    by (cases "request l ''POST'' (apiUrl ?c @ swapPath ?c) any_nil (any_SwapParams p) st")
  then have "receiver st' = receiver st"
    using request_receiver [of l "''POST''" "apiUrl ?c @ swapPath ?c" any_nil "any_SwapParams p" st]
    by simp
  then show ?thesis using r by (simp add: Swap_def Let_def split: sum.splits)
qed

lemma Price_receiver: "receiver (snd (Price l p st)) = receiver st"
proof -
  let ?c = "receiver st"
  obtain res st' where r:
    "request l ''GET'' (apiUrl ?c @ pricePath ?c) (any_PriceParams p) any_nil st = (res, st')"
    by (cases "request l ''GET'' (apiUrl ?c @ pricePath ?c) (any_PriceParams p) any_nil st")
  then have "receiver st' = receiver st"
    using request_receiver [of l "''GET''" "apiUrl ?c @ pricePath ?c" "any_PriceParams p" any_nil st]
    by simp
  then show ?thesis using r by (simp add: Price_def Let_def split: sum.splits)
qed

lemma RoutesMap_receiver: "receiver (snd (RoutesMap l b st)) = receiver st"
proof -
  let ?c = "receiver st"
  let ?p = "any_Values [(''onlyDirectRoutes'', [FormatBool b])]"
  obtain res st' where r:
    "request l ''GET'' (apiUrl ?c @ routesMapPath ?c) ?p any_nil st = (res, st')"
    by (cases "request l ''GET'' (apiUrl ?c @ routesMapPath ?c) ?p any_nil st")
  then have "receiver st' = receiver st"
    using request_receiver [of l "''GET''" "apiUrl ?c @ routesMapPath ?c" ?p any_nil st]
    by simp
  then show ?thesis using r by (simp add: RoutesMap_def Let_def split: sum.splits)
qed

lemma Quote_001_receiver: "receiver (snd (Quote_001 l p st)) = receiver st"
proof -
  let ?c = "receiver st"
  obtain res st' where r:
    "request_001 l ''GET'' (apiUrl ?c @ quotePath ?c) (any_QuoteParams_001 p) any_nil st = (res, st')"
    by (cases "request_001 l ''GET'' (apiUrl ?c @ quotePath ?c) (any_QuoteParams_001 p) any_nil st")
  then have "receiver st' = receiver st"
    using request_001_receiver
      [of l "''GET''" "apiUrl ?c @ quotePath ?c" "any_QuoteParams_001 p" any_nil st]
    by simp
  then show ?thesis using r by (simp add: Quote_001_def Let_def split: sum.splits)
qed

lemma Swap_001_receiver: "receiver (snd (Swap_001 l p st)) = receiver st"
proof -
  let ?c = "receiver st"
  obtain res st' where r:
    "request_001 l ''POST'' (apiUrl ?c @ swapPath ?c) any_nil (any_SwapParams_001 p) st = (res, st')"
    by (cases "request_001 l ''POST'' (apiUrl ?c @ swapPath ?c) any_nil (any_SwapParams_001 p) st")
  then have "receiver st' = receiver st"
    using request_001_receiver
      [of l "''POST''" "apiUrl ?c @ swapPath ?c" any_nil "any_SwapParams_001 p" st]
    by simp
  then show ?thesis using r by (simp add: Swap_001_def Let_def split: sum.splits)
qed

lemma Price_001_receiver: "receiver (snd (Price_001 l p st)) = receiver st"
proof -
  let ?c = "receiver st"
  obtain res st' where r:
    "request_001 l ''GET'' (apiUrl ?c @ pricePath ?c) (any_PriceParams p) any_nil st = (res, st')"
    by (cases "request_001 l ''GET'' (apiUrl ?c @ pricePath ?c) (any_PriceParams p) any_nil st")
  then have "receiver st' = receiver st"
    using request_001_receiver
      [of l "''GET''" "apiUrl ?c @ pricePath ?c" "any_PriceParams p" any_nil st]
    by simp
  then show ?thesis using r by (simp add: Price_001_def Let_def split: sum.splits)
qed

lemma RoutesMap_001_receiver: "receiver (snd (RoutesMap_001 l b st)) = receiver st"
proof -
  let ?c = "receiver st"
  let ?p = "any_Values [(''onlyDirectRoutes'', [FormatBool b])]"
  obtain res st' where r:
    "request_001 l ''GET'' (apiUrl ?c @ routesMapPath ?c) ?p any_nil st = (res, st')"
    by (cases "request_001 l ''GET'' (apiUrl ?c @ routesMapPath ?c) ?p any_nil st")
  then have "receiver st' = receiver st"
    using request_001_receiver [of l "''GET''" "apiUrl ?c @ routesMapPath ?c" ?p any_nil st]
    by simp
  then show ?thesis using r by (simp add: RoutesMap_001_def Let_def split: sum.splits)
qed

lemma BestSwap_receiver: "receiver (snd (BestSwap l p st)) = receiver st"
proof -
  define params where "params =
    (if BestSwapParams.SwapMode p = []
     then p\<lparr>BestSwapParams.SwapMode := SwapModeExactIn\<rparr> else p)"
  define qp where "qp =
    \<lparr>QuoteParams_001.InputMint = BestSwapParams.InputMint params,
     OutputMint = BestSwapParams.OutputMint params,
     Amount = BestSwapParams.Amount params,
     FeeBps = FeeAmount params,
     SwapMode = BestSwapParams.SwapMode params,
     OnlyDirectRoutes = False\<rparr>"
  obtain res st1 where q: "Quote_001 l qp st = (res, st1)"
    by (cases "Quote_001 l qp st")
  then have r1: "receiver st1 = receiver st"
    using Quote_001_receiver [of l qp st] by simp
  have r2: "receiver (snd (Swap_001 l sp st1)) = receiver st" for sp
    using Swap_001_receiver [of l sp st1] r1 by simp
  have "BestSwap l p st =
    (case res of
       Inl err \<Rightarrow> (Inl err, st1)
     | Inr routes \<Rightarrow>
         (case GetBestRoute (better l) routes of
            Inl err \<Rightarrow> (Inl err, st1)
          | Inr route \<Rightarrow>
              (case Swap_001 l
                      \<lparr>SwapParams_001.Route = route,
                       UserPublicKey = BestSwapParams.UserPublicKey params,
                       DestinationWallet = DestinationPublicKey params,
                       FeeAccount = BestSwapParams.FeeAccount params,
                       WrapUnwrapSol = Some True,
                       AsLegacyTransaction = Some True\<rparr> st1 of
                 (Inl err, st2) \<Rightarrow> (Inl err, st2)
               | (Inr swap, st2) \<Rightarrow> (Inr swap, st2))))"
    using q unfolding BestSwap_def Let_def params_def [symmetric] qp_def [symmetric]
    by (simp split: sum.splits)
  then show ?thesis using r1 r2
    by (auto split: sum.splits prod.splits simp: snd_conv dest!: arg_cong [where f = snd])
qed

lemma ExchangeRate_receiver: "receiver (snd (ExchangeRate l p st)) = receiver st"
proof -
  obtain res st1 where q: "Quote_001 l (ExchangeRate_QuoteParams p) st = (res, st1)"
    by (cases "Quote_001 l (ExchangeRate_QuoteParams p) st")
  then have "receiver st1 = receiver st"
    using Quote_001_receiver [of l "ExchangeRate_QuoteParams p" st] by simp
  moreover have "snd (ExchangeRate l p st) = st1"
    using q by (simp add: ExchangeRate_def Let_def split: sum.splits prod.splits option.splits)
  ultimately show ?thesis by simp
qed

lemma invoke_receiver: "receiver (invoke l st c) = receiver st"
  by (cases c)
    (simp_all add: Quote_receiver Swap_receiver Price_receiver RoutesMap_receiver
      Quote_001_receiver Swap_001_receiver Price_001_receiver RoutesMap_001_receiver
      BestSwap_receiver ExchangeRate_receiver)

lemma run_receiver: "receiver (run l calls st) = receiver st"
  unfolding run_def
  by (induction calls arbitrary: st) (simp_all add: invoke_receiver)

text \<open>
  C10. No public method writes a field of its receiver. After \<open>Quote\<close>, \<open>Swap\<close>,
  \<open>Price\<close>, \<open>RoutesMap\<close>, \<open>BestSwap\<close> and \<open>ExchangeRate\<close> (of either client file) the
  transport and the five strings of the client are what they were before the call, and so
  they are after any sequence of calls: every invocation sees the same configuration.
\<close>

theorem client_state_unchanged:
  "receiver (snd (Quote l qp st)) = receiver st \<and>
   receiver (snd (Swap l sp st)) = receiver st \<and>
   receiver (snd (Price l pp st)) = receiver st \<and>
   receiver (snd (RoutesMap l b st)) = receiver st \<and>
   receiver (snd (Quote_001 l qp1 st)) = receiver st \<and>
   receiver (snd (Swap_001 l sp1 st)) = receiver st \<and>
   receiver (snd (Price_001 l pp st)) = receiver st \<and>
   receiver (snd (RoutesMap_001 l b st)) = receiver st \<and>
   receiver (snd (BestSwap l bp st)) = receiver st \<and>
   receiver (snd (ExchangeRate l ep st)) = receiver st \<and>
   receiver (run l calls st) = receiver st"
  by (simp add: Quote_receiver Swap_receiver Price_receiver RoutesMap_receiver
      Quote_001_receiver Swap_001_receiver Price_001_receiver RoutesMap_001_receiver
      BestSwap_receiver ExchangeRate_receiver run_receiver)

lemma NewClient_configured:
  "NewClient [WithHTTPTimeout t, WithRetryCount n, WithRetrier r] =
     \<lparr>timeout = t, retryCount = n, retrier = r\<rparr>"
  by (simp add: NewClient_def)

text \<open>
  C8. \<open>NewJupag\<close> takes no argument and returns a client with a fixed configuration: a
  transport with a constant timeout (3000 ms in one client file, 500 ms in the other),
  retry count 1 and a retrier with a constant backoff built from 500 ms and 1000 ms; a
  constant base URL; and the paths /quote, /swap, /price and /indexed-route-map. A client
  made by \<open>NewJupag\<close> still has this configuration after any sequence of calls.
\<close>

theorem NewJupag_fixed_configuration:
  "jupagImpl NewJupag =
     \<lparr>timeout = 3000 * Millisecond, retryCount = 1,
      retrier = NewRetrier (NewConstantBackoff (500 * Millisecond) (1000 * Millisecond))\<rparr> \<and>
   apiUrl NewJupag = ''https://quote-proxy.jup.ag'' \<and>
   jupagImpl NewJupag_001 =
     \<lparr>timeout = 500 * Millisecond, retryCount = 1,
      retrier = NewRetrier (NewConstantBackoff (500 * Millisecond) (1000 * Millisecond))\<rparr> \<and>
   apiUrl NewJupag_001 = ''https://price.jup.ag/v6'' \<and>
   quotePath NewJupag = ''/quote'' \<and> quotePath NewJupag_001 = ''/quote'' \<and>
   swapPath NewJupag = ''/swap'' \<and> swapPath NewJupag_001 = ''/swap'' \<and>
   pricePath NewJupag = ''/price'' \<and> pricePath NewJupag_001 = ''/price'' \<and>
   routesMapPath NewJupag = ''/indexed-route-map'' \<and>
   routesMapPath NewJupag_001 = ''/indexed-route-map'' \<and>
   receiver (run l calls \<lparr>receiver = NewJupag, sent = reqs\<rparr>) = NewJupag \<and>
   receiver (run l calls \<lparr>receiver = NewJupag_001, sent = reqs\<rparr>) = NewJupag_001"
  by (simp add: NewJupag_def NewJupag_001_def Let_def NewClient_configured run_receiver)

subsection \<open>What the methods send\<close>

text \<open>
  \<open>request\<close> hands at most one request to the transport, and exactly one when it
  returns a response; so do \<open>Quote\<close>, \<open>Price\<close> and \<open>RoutesMap\<close>, which call it once.
\<close>

lemma request_sent:
  "(\<exists>err. request l m e p b st = (Inl err, st)) \<or>
   (\<exists>req. sent (snd (request l m e p b st)) = sent st @ [req])"
  by (auto simp: request_def Do_def Let_def split: sum.splits)

lemma request_response_sent:
  "request l m e p b st = (Inr resp, st') \<Longrightarrow> \<exists>req. sent st' = sent st @ [req]"
  using request_sent [of l m e p b st] by auto

lemma Quote_sends_once:
  "sent (snd (Quote l p st)) = sent st \<or> (\<exists>req. sent (snd (Quote l p st)) = sent st @ [req])"
proof -
  let ?c = "receiver st"
  let ?r = "request l ''GET'' (apiUrl ?c @ quotePath ?c) (any_QuoteParams p) any_nil st"
  have "snd (Quote l p st) = snd ?r"
    by (cases ?r) (simp add: Quote_def Let_def split: sum.splits)
  then show ?thesis
    using request_sent [of l "''GET''" "apiUrl ?c @ quotePath ?c" "any_QuoteParams p" any_nil st]
    by auto
qed

lemma Price_sends_once:
  "sent (snd (Price l p st)) = sent st \<or> (\<exists>req. sent (snd (Price l p st)) = sent st @ [req])"
proof -
  let ?c = "receiver st"
  let ?r = "request l ''GET'' (apiUrl ?c @ pricePath ?c) (any_PriceParams p) any_nil st"
  have "snd (Price l p st) = snd ?r"
    by (cases ?r) (simp add: Price_def Let_def split: sum.splits)
  then show ?thesis
    using request_sent [of l "''GET''" "apiUrl ?c @ pricePath ?c" "any_PriceParams p" any_nil st]
    by auto
qed

lemma RoutesMap_sends_once:
  "sent (snd (RoutesMap l b st)) = sent st \<or>
   (\<exists>req. sent (snd (RoutesMap l b st)) = sent st @ [req])"
proof -
  let ?c = "receiver st"
  let ?p = "any_Values [(''onlyDirectRoutes'', [FormatBool b])]"
  let ?r = "request l ''GET'' (apiUrl ?c @ routesMapPath ?c) ?p any_nil st"
  have "snd (RoutesMap l b st) = snd ?r"
    by (cases ?r) (simp add: RoutesMap_def Let_def split: sum.splits)
  then show ?thesis
    using request_sent [of l "''GET''" "apiUrl ?c @ routesMapPath ?c" ?p any_nil st]
    by auto
qed

lemma Quote_result_sent:
  "Quote l p st = (Inr quote, st') \<Longrightarrow> \<exists>req. sent st' = sent st @ [req]"
proof -
  let ?c = "receiver st"
  let ?r = "request l ''GET'' (apiUrl ?c @ quotePath ?c) (any_QuoteParams p) any_nil st"
  assume q: "Quote l p st = (Inr quote, st')"
  obtain res st1 where r: "?r = (res, st1)" by (cases ?r)
  with q obtain resp where "res = Inr resp" "st1 = st'"
    by (cases res) (auto simp: Quote_def Let_def split: sum.splits)
  with r show ?thesis using request_response_sent by blast
qed

lemma request_nil_params: "\<exists>err. request l m e any_nil body st = (Inl err, st)"
  by (simp add: request_def StructToUrlValues_def split: sum.splits)

lemma request_001_nil_params: "\<exists>err. request_001 l m e any_nil body st = (Inl err, st)"
  by (simp add: request_001_def StructToUrlValues_def split: sum.splits)

text \<open>
  C9. \<open>Swap\<close> hands \<open>nil\<close> to \<open>request\<close> as the query parameters and its own parameters as the
  body. \<open>request\<close> converts the query parameters first, \<open>StructToUrlValues\<close> rejects
  \<open>nil\<close>, and so every call of \<open>Swap\<close> returns the error "failed to make swap request"
  without serialising its parameters and without handing any request to the transport:
  the requests sent are those sent before the call.
\<close>

theorem Swap_sends_nothing:
  "(\<exists>err. Swap l params st = (Inl (Errorf ''failed to make swap request'' err), st)) \<and>
   (\<exists>err. Swap_001 l params1 st = (Inl (Errorf ''failed to make swap request'' err), st))"
proof
  let ?c = "receiver st"
  obtain err where
    "request l ''POST'' (apiUrl ?c @ swapPath ?c) any_nil (any_SwapParams params) st = (Inl err, st)"
    using request_nil_params by blast
  then show "\<exists>err. Swap l params st = (Inl (Errorf ''failed to make swap request'' err), st)"
    by (simp add: Swap_def Let_def)
next
  let ?c = "receiver st"
  obtain err where
    "request_001 l ''POST'' (apiUrl ?c @ swapPath ?c) any_nil (any_SwapParams_001 params1) st
       = (Inl err, st)"
    using request_001_nil_params by blast
  then show "\<exists>err. Swap_001 l params1 st = (Inl (Errorf ''failed to make swap request'' err), st)"
    by (simp add: Swap_001_def Let_def)
qed

subsection \<open>GetBestRoute\<close>




subsection \<open>ExchangeRate\<close>

lemma ExchangeRate_after_quote:
  assumes "Quote_001 l (ExchangeRate_QuoteParams params) st = (Inr routes, st1)"
    and "GetBestRoute (better l) routes = Inr route"
  shows "fst (ExchangeRate l params st) =
     (case ParseInt (Route_001.InAmount route) of
        (inAmount, Some err) \<Rightarrow>
          (ExchangeRate_result params 0 0,
           Some (Errorf ''failed to parse in amount'' (NumErr err)))
      | (inAmount, None) \<Rightarrow>
          (case ParseInt (Route_001.OutAmount route) of
             (outAmount, Some err) \<Rightarrow>
               (ExchangeRate_result params 0 0,
                Some (Errorf ''failed to parse out amount'' (NumErr err)))
           | (outAmount, None) \<Rightarrow>
               (ExchangeRate_result params inAmount outAmount, None)))"
  using assms by (simp add: ExchangeRate_def Let_def split: prod.splits option.splits)

lemma ParseInt_decimal_ok:
  assumes "decimal s" and "dec_val 0 s < 2 ^ 63"
  shows "ParseInt s = (of_nat (dec_val 0 s), None)"
  using ParseInt_decimal [OF assms(1)] assms(2) by simp

lemma ParseInt_decimal_range:
  assumes "decimal s" and "2 ^ 63 \<le> dec_val 0 s"
  shows "ParseInt s = (push_bit 63 1 - 1, Some ErrRange)"
  using ParseInt_decimal [OF assms(1)] assms(2) by simp

lemma ParseInt_minus_decimal_ok:
  assumes "decimal s" and "dec_val 0 s \<le> 2 ^ 63"
  shows "ParseInt (CHR ''-'' # s) = (- of_nat (dec_val 0 s), None)"
  using ParseInt_minus_decimal [OF assms(1)] assms(2) by simp

text \<open>
  C1. Suppose the quote request succeeds and a best route is selected. If the route's
  \<open>InAmount\<close> and \<open>OutAmount\<close> are decimal strings of values below \<open>2^63\<close>, \<open>ExchangeRate\<close>
  returns no error and a rate with the two mints of its parameters and the two values as
  amounts. If one of the two strings does not parse as a signed 64-bit integer, it
  returns an error and a rate with the two mints and both amounts zero.
\<close>

theorem ExchangeRate_parses_amounts:
  assumes "Quote_001 l (ExchangeRate_QuoteParams params) st = (Inr routes, st1)"
    and "GetBestRoute (better l) routes = Inr route"
  shows
    "(decimal (Route_001.InAmount route) \<and> dec_val 0 (Route_001.InAmount route) < 2 ^ 63 \<and>
      decimal (Route_001.OutAmount route) \<and> dec_val 0 (Route_001.OutAmount route) < 2 ^ 63 \<longrightarrow>
        (\<exists>rate. fst (ExchangeRate l params st) = (rate, None) \<and>
           Rate.InputMint rate = ExchangeRateParams.InputMint params \<and>
           Rate.OutputMint rate = ExchangeRateParams.OutputMint params \<and>
           unat (Rate.InAmount rate) = dec_val 0 (Route_001.InAmount route) \<and>
           unat (Rate.OutAmount rate) = dec_val 0 (Route_001.OutAmount route))) \<and>
     (snd (ParseInt (Route_001.InAmount route)) \<noteq> None \<or>
      snd (ParseInt (Route_001.OutAmount route)) \<noteq> None \<longrightarrow>
        (\<exists>err. fst (ExchangeRate l params st) =
           (\<lparr>Rate.InputMint = ExchangeRateParams.InputMint params,
             OutputMint = ExchangeRateParams.OutputMint params,
             InAmount = 0, OutAmount = 0\<rparr>, Some err)))"
proof (intro conjI impI)
  let ?a = "dec_val 0 (Route_001.InAmount route)"
  let ?b = "dec_val 0 (Route_001.OutAmount route)"
  assume h: "decimal (Route_001.InAmount route) \<and> ?a < 2 ^ 63 \<and>
      decimal (Route_001.OutAmount route) \<and> ?b < 2 ^ 63"
  then have pa: "ParseInt (Route_001.InAmount route) = (of_nat ?a, None)"
    and pb: "ParseInt (Route_001.OutAmount route) = (of_nat ?b, None)"
    by (simp_all add: ParseInt_decimal_ok)
  have "?a < 2 ^ 64" "?b < 2 ^ 64" using h by simp_all
  then have "unat (of_nat ?a :: 64 word) = ?a" "unat (of_nat ?b :: 64 word) = ?b"
    by (simp_all add: unat_of_nat64)
  moreover have "fst (ExchangeRate l params st) =
      (ExchangeRate_result params (of_nat ?a) (of_nat ?b), None)"
    using ExchangeRate_after_quote [OF assms] pa pb by simp
  ultimately show "\<exists>rate. fst (ExchangeRate l params st) = (rate, None) \<and>
           Rate.InputMint rate = ExchangeRateParams.InputMint params \<and>
           Rate.OutputMint rate = ExchangeRateParams.OutputMint params \<and>
           unat (Rate.InAmount rate) = ?a \<and> unat (Rate.OutAmount rate) = ?b"
    by simp
next
  assume "snd (ParseInt (Route_001.InAmount route)) \<noteq> None \<or>
      snd (ParseInt (Route_001.OutAmount route)) \<noteq> None"
  then show "\<exists>err. fst (ExchangeRate l params st) =
           (\<lparr>Rate.InputMint = ExchangeRateParams.InputMint params,
             OutputMint = ExchangeRateParams.OutputMint params,
             InAmount = 0, OutAmount = 0\<rparr>, Some err)"
    using ExchangeRate_after_quote [OF assms]
    by (auto split: prod.splits option.splits)
qed

text \<open>
  C7. The amounts are parsed as signed 64-bit integers and converted to unsigned ones.
  For an amount string that is a minus sign followed by the decimal string of \<open>n\<close>, with
  \<open>0 < n \<le> 2^63\<close> (the other amount parsing), \<open>ExchangeRate\<close> returns no error and the
  amount \<open>2^64 - n\<close>. For an amount that is a decimal string of a value of at least
  \<open>2^63\<close> it returns a parse error (a range error), for either amount.
\<close>

theorem ExchangeRate_signed_parse:
  assumes "Quote_001 l (ExchangeRate_QuoteParams params) st = (Inr routes, st1)"
    and "GetBestRoute (better l) routes = Inr route"
  shows
    "(Route_001.InAmount route = CHR ''-'' # s \<and> decimal s \<and>
      0 < dec_val 0 s \<and> dec_val 0 s \<le> 2 ^ 63 \<and>
      snd (ParseInt (Route_001.OutAmount route)) = None \<longrightarrow>
        snd (fst (ExchangeRate l params st)) = None \<and>
        unat (Rate.InAmount (fst (fst (ExchangeRate l params st)))) = 2 ^ 64 - dec_val 0 s) \<and>
     (Route_001.OutAmount route = CHR ''-'' # s \<and> decimal s \<and>
      0 < dec_val 0 s \<and> dec_val 0 s \<le> 2 ^ 63 \<and>
      snd (ParseInt (Route_001.InAmount route)) = None \<longrightarrow>
        snd (fst (ExchangeRate l params st)) = None \<and>
        unat (Rate.OutAmount (fst (fst (ExchangeRate l params st)))) = 2 ^ 64 - dec_val 0 s) \<and>
     (decimal (Route_001.InAmount route) \<and> 2 ^ 63 \<le> dec_val 0 (Route_001.InAmount route) \<longrightarrow>
        snd (fst (ExchangeRate l params st)) =
          Some (Errorf ''failed to parse in amount'' (NumErr ErrRange))) \<and>
     (decimal (Route_001.OutAmount route) \<and> 2 ^ 63 \<le> dec_val 0 (Route_001.OutAmount route) \<and>
      snd (ParseInt (Route_001.InAmount route)) = None \<longrightarrow>
        snd (fst (ExchangeRate l params st)) =
          Some (Errorf ''failed to parse out amount'' (NumErr ErrRange)))"
proof (intro conjI impI)
  assume h: "Route_001.InAmount route = CHR ''-'' # s \<and> decimal s \<and>
      0 < dec_val 0 s \<and> dec_val 0 s \<le> 2 ^ 63 \<and>
      snd (ParseInt (Route_001.OutAmount route)) = None"
  then have pa: "ParseInt (Route_001.InAmount route) = (- of_nat (dec_val 0 s), None)"
    by (simp add: ParseInt_minus_decimal_ok)
  obtain b where pb: "ParseInt (Route_001.OutAmount route) = (b, None)"
    using h by (cases "ParseInt (Route_001.OutAmount route)") simp
  have e: "fst (ExchangeRate l params st) =
      (ExchangeRate_result params (- of_nat (dec_val 0 s)) b, None)"
    using ExchangeRate_after_quote [OF assms] pa pb by simp
  show "snd (fst (ExchangeRate l params st)) = None" using e by simp
  show "unat (Rate.InAmount (fst (fst (ExchangeRate l params st)))) = 2 ^ 64 - dec_val 0 s"
    using e h by (simp add: unat_minus_of_nat64)
next
  assume h: "Route_001.OutAmount route = CHR ''-'' # s \<and> decimal s \<and>
      0 < dec_val 0 s \<and> dec_val 0 s \<le> 2 ^ 63 \<and>
      snd (ParseInt (Route_001.InAmount route)) = None"
  then have pb: "ParseInt (Route_001.OutAmount route) = (- of_nat (dec_val 0 s), None)"
    by (simp add: ParseInt_minus_decimal_ok)
  obtain a where pa: "ParseInt (Route_001.InAmount route) = (a, None)"
    using h by (cases "ParseInt (Route_001.InAmount route)") simp
  have e: "fst (ExchangeRate l params st) =
      (ExchangeRate_result params a (- of_nat (dec_val 0 s)), None)"
    using ExchangeRate_after_quote [OF assms] pa pb by simp
  show "snd (fst (ExchangeRate l params st)) = None" using e by simp
  show "unat (Rate.OutAmount (fst (fst (ExchangeRate l params st)))) = 2 ^ 64 - dec_val 0 s"
    using e h by (simp add: unat_minus_of_nat64)
next
  assume "decimal (Route_001.InAmount route) \<and> 2 ^ 63 \<le> dec_val 0 (Route_001.InAmount route)"
  then have "ParseInt (Route_001.InAmount route) = (push_bit 63 1 - 1, Some ErrRange)"
    by (simp add: ParseInt_decimal_range)
  then show "snd (fst (ExchangeRate l params st)) =
      Some (Errorf ''failed to parse in amount'' (NumErr ErrRange))"
    using ExchangeRate_after_quote [OF assms] by simp
next
  assume h: "decimal (Route_001.OutAmount route) \<and>
      2 ^ 63 \<le> dec_val 0 (Route_001.OutAmount route) \<and>
      snd (ParseInt (Route_001.InAmount route)) = None"
  then have pb: "ParseInt (Route_001.OutAmount route) = (push_bit 63 1 - 1, Some ErrRange)"
    by (simp add: ParseInt_decimal_range)
  obtain a where pa: "ParseInt (Route_001.InAmount route) = (a, None)"
    using h by (cases "ParseInt (Route_001.InAmount route)") simp
  show "snd (fst (ExchangeRate l params st)) =
      Some (Errorf ''failed to parse out amount'' (NumErr ErrRange))"
    using ExchangeRate_after_quote [OF assms] pa pb by simp
qed

lemma example_quote:
  "\<exists>st1. Quote_001 (example_rate_lib a b) qp example_state =
     (Inr [\<lparr>Route_001.InAmount = a, OutAmount = b\<rparr>], st1)"
  by (simp add: Quote_001_def request_001_def StructToUrlValues_def Do_def parseResponse_def
      example_rate_lib_def example_lib_def example_state_def response_200_def
      NewJupag_001_def Let_def)

lemma example_best: "GetBestRoute (better (example_rate_lib a b)) [r] = Inr r"
  by (simp add: GetBestRoute_def)

lemma example_amounts:
  "decimal ''100''" "dec_val 0 ''100'' = 100"
  "decimal ''250''" "dec_val 0 ''250'' = 250"
  "decimal ''5''" "dec_val 0 ''5'' = 5"
  "decimal ''9223372036854775808''"
  "dec_val 0 ''9223372036854775808'' = 9223372036854775808"
  by (simp_all add: decimal_def is_digit_def dec_val_def)

lemma example_parses:
  "snd (ParseInt ''1e3'') = Some ErrSyntax"
  "snd (ParseInt ''250'') = None"
  "snd (ParseInt ''100'') = None"
  by code_simp+

theorem ExchangeRate_parses_amounts_witness:
  "(\<exists>rate. fst (ExchangeRate (example_rate_lib ''100'' ''250'') example_params example_state)
       = (rate, None) \<and>
     Rate.InputMint rate = ''SOL'' \<and> Rate.OutputMint rate = ''USDC'' \<and>
     unat (Rate.InAmount rate) = 100 \<and> unat (Rate.OutAmount rate) = 250) \<and>
   (\<exists>err. fst (ExchangeRate (example_rate_lib ''1e3'' ''250'') example_params example_state)
       = (\<lparr>Rate.InputMint = ''SOL'', OutputMint = ''USDC'', InAmount = 0, OutAmount = 0\<rparr>,
          Some err))"
proof
  let ?l = "example_rate_lib ''100'' ''250''"
  let ?r = "\<lparr>Route_001.InAmount = ''100'', OutAmount = ''250''\<rparr>"
  obtain st1 where q:
    "Quote_001 ?l (ExchangeRate_QuoteParams example_params) example_state = (Inr [?r], st1)"
    using example_quote by blast
  have b: "GetBestRoute (better ?l) [?r] = Inr ?r" by (rule example_best)
  show "\<exists>rate. fst (ExchangeRate ?l example_params example_state) = (rate, None) \<and>
     Rate.InputMint rate = ''SOL'' \<and> Rate.OutputMint rate = ''USDC'' \<and>
     unat (Rate.InAmount rate) = 100 \<and> unat (Rate.OutAmount rate) = 250"
    using ExchangeRate_parses_amounts [OF q b] example_amounts
    by (simp add: example_params_def)
next
  let ?l = "example_rate_lib ''1e3'' ''250''"
  let ?r = "\<lparr>Route_001.InAmount = ''1e3'', OutAmount = ''250''\<rparr>"
  obtain st1 where q:
    "Quote_001 ?l (ExchangeRate_QuoteParams example_params) example_state = (Inr [?r], st1)"
    using example_quote by blast
  have b: "GetBestRoute (better ?l) [?r] = Inr ?r" by (rule example_best)
  show "\<exists>err. fst (ExchangeRate ?l example_params example_state)
       = (\<lparr>Rate.InputMint = ''SOL'', OutputMint = ''USDC'', InAmount = 0, OutAmount = 0\<rparr>,
          Some err)"
    using ExchangeRate_parses_amounts [OF q b] example_parses
    by (simp add: example_params_def)
qed

theorem ExchangeRate_signed_parse_witness:
  "snd (fst (ExchangeRate (example_rate_lib ''-5'' ''250'') example_params example_state)) = None \<and>
   unat (Rate.InAmount
     (fst (fst (ExchangeRate (example_rate_lib ''-5'' ''250'') example_params example_state))))
     = 18446744073709551611 \<and>
   snd (fst (ExchangeRate (example_rate_lib ''100'' ''-5'') example_params example_state)) = None \<and>
   unat (Rate.OutAmount
     (fst (fst (ExchangeRate (example_rate_lib ''100'' ''-5'') example_params example_state))))
     = 18446744073709551611 \<and>
   snd (fst (ExchangeRate (example_rate_lib ''9223372036854775808'' ''250'')
     example_params example_state))
     = Some (Errorf ''failed to parse in amount'' (NumErr ErrRange)) \<and>
   snd (fst (ExchangeRate (example_rate_lib ''100'' ''9223372036854775808'')
     example_params example_state))
     = Some (Errorf ''failed to parse out amount'' (NumErr ErrRange))"
proof -
  have w: "snd (fst (ExchangeRate (example_rate_lib a b) example_params example_state)) = x"
    if "\<And>st1. Quote_001 (example_rate_lib a b) (ExchangeRate_QuoteParams example_params)
          example_state = (Inr [\<lparr>Route_001.InAmount = a, OutAmount = b\<rparr>], st1) \<Longrightarrow>
        snd (fst (ExchangeRate (example_rate_lib a b) example_params example_state)) = x"
    for a b x
    using that example_quote by blast
  have w': "unat (f (fst (fst (ExchangeRate (example_rate_lib a b) example_params example_state)))) = x"
    if "\<And>st1. Quote_001 (example_rate_lib a b) (ExchangeRate_QuoteParams example_params)
          example_state = (Inr [\<lparr>Route_001.InAmount = a, OutAmount = b\<rparr>], st1) \<Longrightarrow>
        unat (f (fst (fst (ExchangeRate (example_rate_lib a b) example_params example_state)))) = x"
    for a b x and f :: "Rate \<Rightarrow> 64 word"
    using that example_quote by blast
  have 1: "snd (fst (ExchangeRate (example_rate_lib ''-5'' ''250'') example_params example_state)) = None"
    by (rule w) (use ExchangeRate_signed_parse [OF _ example_best, where s = "''5''"]
        example_amounts example_parses in simp)
  have 2: "unat (Rate.InAmount
     (fst (fst (ExchangeRate (example_rate_lib ''-5'' ''250'') example_params example_state))))
     = 18446744073709551611"
    by (rule w') (use ExchangeRate_signed_parse [OF _ example_best, where s = "''5''"]
        example_amounts example_parses in simp)
  have 3: "snd (fst (ExchangeRate (example_rate_lib ''100'' ''-5'') example_params example_state)) = None"
    by (rule w) (use ExchangeRate_signed_parse [OF _ example_best, where s = "''5''"]
        example_amounts example_parses in simp)
  have 4: "unat (Rate.OutAmount
     (fst (fst (ExchangeRate (example_rate_lib ''100'' ''-5'') example_params example_state))))
     = 18446744073709551611"
    by (rule w') (use ExchangeRate_signed_parse [OF _ example_best, where s = "''5''"]
        example_amounts example_parses in simp)
  have 5: "snd (fst (ExchangeRate (example_rate_lib ''9223372036854775808'' ''250'')
     example_params example_state))
     = Some (Errorf ''failed to parse in amount'' (NumErr ErrRange))"
    by (rule w) (use ExchangeRate_signed_parse [OF _ example_best, where s = "''5''"]
        example_amounts example_parses in simp)
  have 6: "snd (fst (ExchangeRate (example_rate_lib ''100'' ''9223372036854775808'')
     example_params example_state))
     = Some (Errorf ''failed to parse out amount'' (NumErr ErrRange))"
    by (rule w) (use ExchangeRate_signed_parse [OF _ example_best, where s = "''5''"]
        example_amounts example_parses in simp)
  from 1 2 3 4 5 6 show ?thesis by blast
qed

subsection \<open>request\<close>



subsection \<open>parseResponse\<close>





end
